theory Spec2Isabelle
  imports Complex_Main
begin

section \<open>JavaScript values used by the bulk product import\<close>

text \<open>
  The upload route of \<^verbatim>\<open>src/routes/productRoutes.js\<close> reads a sheet into rows, builds
  a header map and hands both to \<^verbatim>\<open>processProducts\<close>. This theory embeds that code.

  Strings are byte strings; \<^verbatim>\<open>trim\<close> and \<^verbatim>\<open>toLowerCase\<close> are modelled on ASCII.
  A JavaScript number is \<open>NaN\<close> or a finite value, kept as the exact rational it denotes:
  the rounding, overflow and underflow of IEEE doubles are not modelled.
\<close>

datatype jsnum = NaN | Finite rat

text \<open>
  A cell of a parsed row: what \<^verbatim>\<open>product[header]\<close> can evaluate to. \<open>Obj s\<close> is any
  object (a date cell, for instance) whose conversion \<^verbatim>\<open>String(o)\<close> is \<open>s\<close>.
\<close>

datatype cell = Undefined | Null | Bool bool | Number jsnum | Str string | Obj string

text \<open>JavaScript truthiness, as used by \<^verbatim>\<open>!x\<close> and \<^verbatim>\<open>x || y\<close>.\<close>

fun truthy :: "cell \<Rightarrow> bool" where
  "truthy Undefined = False"
| "truthy Null = False"
| "truthy (Bool b) = b"
| "truthy (Number NaN) = False"
| "truthy (Number (Finite r)) = (r \<noteq> 0)"
| "truthy (Str s) = (s \<noteq> [])"
| "truthy (Obj s) = True"

definition js_or :: "cell \<Rightarrow> cell \<Rightarrow> cell" where
  "js_or a b = (if truthy a then a else b)"

text \<open>
  \<^verbatim>\<open>String(v)\<close>. The decimal rendering of a number depends on its double; it is the
  parameter \<open>numstr\<close>.
\<close>

fun js_String :: "(jsnum \<Rightarrow> string) \<Rightarrow> cell \<Rightarrow> string" where
  "js_String numstr Undefined = ''undefined''"
| "js_String numstr Null = ''null''"
| "js_String numstr (Bool b) = (if b then ''true'' else ''false'')"
| "js_String numstr (Number n) = numstr n"
| "js_String numstr (Str s) = s"
| "js_String numstr (Obj s) = s"

text \<open>\<^verbatim>\<open>typeof v === 'number'\<close>\<close>

fun typeof_number :: "cell \<Rightarrow> bool" where
  "typeof_number (Number n) = True"
| "typeof_number _ = False"

definition isNaN :: "jsnum \<Rightarrow> bool" where
  "isNaN x = (case x of NaN \<Rightarrow> True | Finite r \<Rightarrow> False)"

text \<open>\<^verbatim>\<open>x <= 0\<close> and \<^verbatim>\<open>x < 0\<close>: every comparison with \<open>NaN\<close> is false.\<close>

definition le_zero :: "jsnum \<Rightarrow> bool" where
  "le_zero x = (case x of NaN \<Rightarrow> False | Finite r \<Rightarrow> r \<le> 0)"

definition lt_zero :: "jsnum \<Rightarrow> bool" where
  "lt_zero x = (case x of NaN \<Rightarrow> False | Finite r \<Rightarrow> r < 0)"

subsection \<open>Strings\<close>

definition is_space :: "char \<Rightarrow> bool" where
  "is_space c = (c \<in> set [CHR '' '', CHR 0x09, CHR 0x0A, CHR 0x0B, CHR 0x0C, CHR 0x0D])"

definition trim :: "string \<Rightarrow> string" where
  "trim s = rev (dropWhile is_space (rev (dropWhile is_space s)))"

definition lower_char :: "char \<Rightarrow> char" where
  "lower_char c =
     (case map_of (zip ''ABCDEFGHIJKLMNOPQRSTUVWXYZ'' ''abcdefghijklmnopqrstuvwxyz'') c of
        Some l \<Rightarrow> l
      | None \<Rightarrow> c)"

definition toLowerCase :: "string \<Rightarrow> string" where
  "toLowerCase s = map lower_char s"

text \<open>\<^verbatim>\<open>xs.join(sep)\<close>\<close>

fun join :: "string \<Rightarrow> string list \<Rightarrow> string" where
  "join sep [] = []"
| "join sep [x] = x"
| "join sep (x # y # ys) = x @ sep @ join sep (y # ys)"

definition is_digit :: "char \<Rightarrow> bool" where
  "is_digit c = (c \<in> set ''0123456789'')"

definition digit_val :: "char \<Rightarrow> nat" where
  "digit_val c = (case map_of (zip ''0123456789'' [0, 1, 2, 3, 4, 5, 6, 7, 8, 9]) c of
                    Some d \<Rightarrow> d
                  | None \<Rightarrow> 0)"

text \<open>The value of a run of decimal digits, most significant first.\<close>

definition digits_val :: "string \<Rightarrow> nat" where
  "digits_val ds = foldl (\<lambda>acc c. 10 * acc + digit_val c) 0 ds"

text \<open>A template literal renders a count or a row number in decimal.\<close>

fun show_nat :: "nat \<Rightarrow> string" where
  "show_nat n =
     (if n < 10 then [''0123456789'' ! n]
      else show_nat (n div 10) @ [''0123456789'' ! (n mod 10)])"

declare show_nat.simps [simp del]

subsection \<open>Parsing numbers\<close>

text \<open>
  \<^verbatim>\<open>parseFloat\<close> and \<^verbatim>\<open>parseInt\<close> on the strings the import passes to them, which hold
  only digits, \<open>-\<close> and (for \<^verbatim>\<open>parseFloat\<close>) \<open>.\<close>: an optional leading \<open>-\<close>, then the
  longest run of digits, for \<^verbatim>\<open>parseFloat\<close> optionally followed by \<open>.\<close> and a further run
  of digits. Whatever follows is ignored. Without any digit the result is \<open>NaN\<close>.
\<close>

definition parseFloat :: "string \<Rightarrow> jsnum" where
  "parseFloat s =
     (let neg = (s \<noteq> [] \<and> hd s = CHR ''-'');
          body = (if neg then tl s else s);
          ip = takeWhile is_digit body;
          rest = dropWhile is_digit body;
          fp = (if rest \<noteq> [] \<and> hd rest = CHR ''.'' then takeWhile is_digit (tl rest) else [])
      in if ip = [] \<and> fp = [] then NaN
         else let m = of_nat (digits_val ip) + of_nat (digits_val fp) / 10 ^ length fp
              in Finite (if neg then - m else m))"

definition parseInt :: "string \<Rightarrow> jsnum" where
  "parseInt s =
     (let neg = (s \<noteq> [] \<and> hd s = CHR ''-'');
          body = (if neg then tl s else s);
          ip = takeWhile is_digit body
      in if ip = [] then NaN
         else let m = of_nat (digits_val ip)
              in Finite (if neg then - m else m))"

text \<open>\<^verbatim>\<open>s || '0'\<close> on strings: the empty string is falsy.\<close>

definition or_zero :: "string \<Rightarrow> string" where
  "or_zero s = (if s = [] then ''0'' else s)"

text \<open>\<^verbatim>\<open>.replace(/[^\d.-]/g, '')\<close> and \<^verbatim>\<open>.replace(/[^\d-]/g, '')\<close>\<close>

definition strip_price :: "string \<Rightarrow> string" where
  "strip_price s = filter (\<lambda>c. is_digit c \<or> c = CHR ''.'' \<or> c = CHR ''-'') s"

definition strip_stock :: "string \<Rightarrow> string" where
  "strip_stock s = filter (\<lambda>c. is_digit c \<or> c = CHR ''-'') s"

section \<open>Plain objects used as lookup tables\<close>

text \<open>
  \<^verbatim>\<open>columnMap\<close> and \<^verbatim>\<open>categoryMap\<close> are object literals \<^verbatim>\<open>{}\<close> filled by assignment. An
  object is modelled by the map of its own properties. Two things of the language show
  through: assigning a string or a number to the key \<^verbatim>\<open>__proto__\<close> stores nothing, and
  reading a key that is not an own property yields the property inherited from
  \<^verbatim>\<open>Object.prototype\<close> when there is one.
\<close>

definition obj_set :: "(string \<rightharpoonup> 'v) \<Rightarrow> string \<Rightarrow> 'v \<Rightarrow> (string \<rightharpoonup> 'v)" where
  "obj_set m k v = (if k = ''__proto__'' then m else m(k \<mapsto> v))"

definition prototype_keys :: "string list" where
  "prototype_keys =
     [''constructor'', ''__defineGetter__'', ''__defineSetter__'', ''hasOwnProperty'',
      ''__lookupGetter__'', ''__lookupSetter__'', ''isPrototypeOf'', ''propertyIsEnumerable'',
      ''toString'', ''valueOf'', ''__proto__'', ''toLocaleString'']"

text \<open>What \<^verbatim>\<open>categoryMap[key]\<close> evaluates to.\<close>

datatype catval = NoProp | OwnId int | Inherited

definition categoryMap_get :: "(string \<rightharpoonup> int) \<Rightarrow> string \<Rightarrow> catval" where
  "categoryMap_get m k =
     (case m k of
        Some i \<Rightarrow> OwnId i
      | None \<Rightarrow> if k \<in> set prototype_keys then Inherited else NoProp)"

fun truthy_catval :: "catval \<Rightarrow> bool" where
  "truthy_catval NoProp = False"
| "truthy_catval (OwnId i) = (i \<noteq> 0)"
| "truthy_catval Inherited = True"

text \<open>
  \<^verbatim>\<open>columnMap[field]\<close> is only read at the four required field names, none of which is
  inherited, so the own properties decide. The value is a header string; an absent key
  reads \<^verbatim>\<open>undefined\<close>, and both \<^verbatim>\<open>undefined\<close> and the empty string are falsy.
\<close>

definition column_falsy :: "(string \<rightharpoonup> string) \<Rightarrow> string \<Rightarrow> bool" where
  "column_falsy columnMap field = (case columnMap field of None \<Rightarrow> True | Some col \<Rightarrow> col = [])"

text \<open>The property key \<^verbatim>\<open>columnMap[field]\<close> selects in a row: \<^verbatim>\<open>undefined\<close> reads as the key "undefined".\<close>

definition column_key :: "(string \<rightharpoonup> string) \<Rightarrow> string \<Rightarrow> string" where
  "column_key columnMap field = (case columnMap field of None \<Rightarrow> ''undefined'' | Some col \<Rightarrow> col)"

section \<open>The header map of the upload route\<close>

text \<open>
  \<^verbatim>\<open>availableColumns.forEach(col => { columnMap[col.trim().toLowerCase()] = col; })\<close>
\<close>

definition build_columnMap :: "string list \<Rightarrow> (string \<rightharpoonup> string)" where
  "build_columnMap availableColumns =
     fold (\<lambda>col columnMap. obj_set columnMap (toLowerCase (trim col)) col) availableColumns Map.empty"

section \<open>The database client\<close>

text \<open>
  A row is \<^verbatim>\<open>product[key]\<close> as a function of the key. The parameters of the
  \<^verbatim>\<open>INSERT\<close> are the array \<^verbatim>\<open>[productName, categoryId, price, stock]\<close>.
\<close>

type_synonym row = "string \<Rightarrow> cell"

type_synonym insert_params = "string \<times> catval \<times> jsnum \<times> jsnum"

record category =
  category_id :: int
  category_name :: string

record database =
  category_table :: "category list"
  products_table :: "insert_params list"

datatype client_call =
  BEGIN | SELECT_category | INSERT_products insert_params | COMMIT | ROLLBACK | Release

text \<open>
  Modelled from the spec: the pool of \<^verbatim>\<open>../database\<close> and the store behind it are not
  under src/. The persistence collaborator "must support opening a transaction, inserting
  one product record (name, category id, price, stock) returning success/failure per
  call, committing, and rolling back". A client holds the tables, the rows inserted by its
  open transaction (\<open>None\<close> when no transaction is open) and the calls made on it, in
  order. Whether the store accepts a row is the parameter \<open>reject\<close>: given the rows the
  statement can see and the new row, it returns the error message of a refused insert.
  A refused insert changes nothing and leaves the transaction open. Failures of
  \<^verbatim>\<open>connect\<close>, \<^verbatim>\<open>BEGIN\<close>, \<^verbatim>\<open>SELECT\<close>, \<^verbatim>\<open>COMMIT\<close> and \<^verbatim>\<open>ROLLBACK\<close> themselves are not modelled.
\<close>

record client = database +
  transaction :: "insert_params list option"
  calls :: "client_call list"

definition connect :: "database \<Rightarrow> client" where
  "connect db =
     \<lparr>category_table = category_table db, products_table = products_table db,
      transaction = None, calls = []\<rparr>"

definition called :: "client_call \<Rightarrow> client \<Rightarrow> client" where
  "called q c = c\<lparr>calls := calls c @ [q]\<rparr>"

definition query_BEGIN :: "client \<Rightarrow> client" where
  "query_BEGIN c =
     called BEGIN (case transaction c of None \<Rightarrow> c\<lparr>transaction := Some []\<rparr> | Some ps \<Rightarrow> c)"

definition query_SELECT_category :: "client \<Rightarrow> category list \<times> client" where
  "query_SELECT_category c = (category_table c, called SELECT_category c)"

definition visible_rows :: "client \<Rightarrow> insert_params list" where
  "visible_rows c =
     products_table c @ (case transaction c of None \<Rightarrow> [] | Some ps \<Rightarrow> ps)"

definition query_INSERT ::
  "(insert_params list \<Rightarrow> insert_params \<Rightarrow> string option) \<Rightarrow> insert_params \<Rightarrow> client
     \<Rightarrow> string option \<times> client" where
  "query_INSERT reject p c =
     (case reject (visible_rows c) p of
        Some msg \<Rightarrow> (Some msg, called (INSERT_products p) c)
      | None \<Rightarrow>
          (None,
           called (INSERT_products p)
             (case transaction c of
                None \<Rightarrow> c\<lparr>products_table := products_table c @ [p]\<rparr>
              | Some ps \<Rightarrow> c\<lparr>transaction := Some (ps @ [p])\<rparr>)))"

definition query_COMMIT :: "client \<Rightarrow> client" where
  "query_COMMIT c =
     called COMMIT
       (case transaction c of
          None \<Rightarrow> c
        | Some ps \<Rightarrow> c\<lparr>products_table := products_table c @ ps, transaction := None\<rparr>)"

definition query_ROLLBACK :: "client \<Rightarrow> client" where
  "query_ROLLBACK c = called ROLLBACK (c\<lparr>transaction := None\<rparr>)"

definition release :: "client \<Rightarrow> client" where
  "release c = called Release c"

section \<open>processProducts\<close>

subsection \<open>Column accessors\<close>

definition getProductName :: "(jsnum \<Rightarrow> string) \<Rightarrow> (string \<rightharpoonup> string) \<Rightarrow> row \<Rightarrow> string" where
  "getProductName numstr columnMap product =
     trim (js_String numstr (js_or (product (column_key columnMap ''product_name'')) (Str [])))"

definition getCategoryName :: "(jsnum \<Rightarrow> string) \<Rightarrow> (string \<rightharpoonup> string) \<Rightarrow> row \<Rightarrow> string" where
  "getCategoryName numstr columnMap product =
     trim (js_String numstr (js_or (product (column_key columnMap ''category_name'')) (Str [])))"

definition getPrice :: "(jsnum \<Rightarrow> string) \<Rightarrow> (string \<rightharpoonup> string) \<Rightarrow> row \<Rightarrow> jsnum" where
  "getPrice numstr columnMap product =
     (let priceRaw = product (column_key columnMap ''price'')
      in if typeof_number priceRaw then (case priceRaw of Number n \<Rightarrow> n | _ \<Rightarrow> NaN)
         else parseFloat (or_zero (strip_price (js_String numstr priceRaw))))"

definition getStock :: "(jsnum \<Rightarrow> string) \<Rightarrow> (string \<rightharpoonup> string) \<Rightarrow> row \<Rightarrow> jsnum" where
  "getStock numstr columnMap product =
     (let stockRaw = product (column_key columnMap ''stock'')
      in if typeof_number stockRaw then (case stockRaw of Number n \<Rightarrow> n | _ \<Rightarrow> NaN)
         else parseInt (or_zero (strip_stock (js_String numstr stockRaw))))"

subsection \<open>One pass of the loop body\<close>

definition row_msg :: "nat \<Rightarrow> string \<Rightarrow> string" where
  "row_msg rowNum reason = ''Row '' @ show_nat rowNum @ '': '' @ reason"

text \<open>
  The body up to the insert: the extraction and the four checks, each of which pushes one
  message and goes on to the next row. \<open>Inl\<close> is the message pushed, \<open>Inr\<close> the parameters
  of the insert the body goes on to make.
\<close>

definition validate_row ::
  "(jsnum \<Rightarrow> string) \<Rightarrow> category list \<Rightarrow> (string \<rightharpoonup> int) \<Rightarrow> (string \<rightharpoonup> string) \<Rightarrow> nat \<Rightarrow> row
     \<Rightarrow> string + insert_params" where
  "validate_row numstr categories categoryMap columnMap rowNum product =
     (let productName = getProductName numstr columnMap product;
          categoryName = getCategoryName numstr columnMap product;
          price = getPrice numstr columnMap product;
          stock = getStock numstr columnMap product
      in if productName = [] \<or> categoryName = [] then
           Inl (row_msg rowNum ''Missing product_name or category_name'')
         else if isNaN price \<or> le_zero price then
           Inl (row_msg rowNum ''Price must be a number greater than 0'')
         else if isNaN stock \<or> lt_zero stock then
           Inl (row_msg rowNum ''Stock must be a number greater than or equal to 0'')
         else
           let categoryNameLower = toLowerCase categoryName
           in if \<not> truthy_catval (categoryMap_get categoryMap categoryNameLower) then
                Inl (row_msg rowNum
                      (''Category '' @ [CHR 0x22] @ categoryName @ [CHR 0x22]
                       @ '' does not exist. Available categories: ''
                       @ join '', '' (map category_name categories)))
              else
                let categoryId = categoryMap_get categoryMap categoryNameLower
                in Inr (productName, categoryId, price, stock))"

record loop_state =
  errors :: "string list"
  processedCount :: nat
  conn :: client

text \<open>The body of the loop for the row of display number \<open>rowNum\<close>.\<close>

definition process_row ::
  "(jsnum \<Rightarrow> string) \<Rightarrow> (insert_params list \<Rightarrow> insert_params \<Rightarrow> string option) \<Rightarrow> category list
     \<Rightarrow> (string \<rightharpoonup> int) \<Rightarrow> (string \<rightharpoonup> string) \<Rightarrow> nat \<Rightarrow> row \<Rightarrow> loop_state \<Rightarrow> loop_state" where
  "process_row numstr reject categories categoryMap columnMap rowNum product st =
     (case validate_row numstr categories categoryMap columnMap rowNum product of
        Inl msg \<Rightarrow> st\<lparr>errors := errors st @ [msg]\<rparr>
      | Inr params \<Rightarrow>
          (case query_INSERT reject params (conn st) of
             (None, c) \<Rightarrow> st\<lparr>processedCount := processedCount st + 1, conn := c\<rparr>
           | (Some err, c) \<Rightarrow>
               st\<lparr>errors := errors st @ [row_msg rowNum (''Database error: '' @ err)],
                  conn := c\<rparr>))"

text \<open>\<^verbatim>\<open>for (let i = 0; i < products.length; i++)\<close>, from index \<open>i\<close> on, with \<^verbatim>\<open>rowNum = i + 2\<close>.\<close>

fun process_rows ::
  "(jsnum \<Rightarrow> string) \<Rightarrow> (insert_params list \<Rightarrow> insert_params \<Rightarrow> string option) \<Rightarrow> category list
     \<Rightarrow> (string \<rightharpoonup> int) \<Rightarrow> (string \<rightharpoonup> string) \<Rightarrow> nat \<Rightarrow> row list \<Rightarrow> loop_state \<Rightarrow> loop_state" where
  "process_rows numstr reject categories categoryMap columnMap i [] st = st"
| "process_rows numstr reject categories categoryMap columnMap i (product # rest) st =
     process_rows numstr reject categories categoryMap columnMap (i + 1) rest
       (process_row numstr reject categories categoryMap columnMap (i + 2) product st)"

subsection \<open>The whole function\<close>

datatype js_error = Error string

text \<open>The object returned on success, as its list of properties.\<close>

type_synonym report = "(string \<times> cell) list"

definition requiredFields :: "string list" where
  "requiredFields = [''product_name'', ''category_name'', ''price'', ''stock'']"

definition build_categoryMap :: "category list \<Rightarrow> (string \<rightharpoonup> int)" where
  "build_categoryMap categories =
     fold (\<lambda>cat categoryMap. obj_set categoryMap (toLowerCase (category_name cat)) (category_id cat))
       categories Map.empty"

definition missing_columns_msg :: "string list \<Rightarrow> string" where
  "missing_columns_msg missingFields =
     ''Missing required columns: '' @ join '', '' missingFields
     @ ''. Please ensure your Excel has these exact columns (spaces are trimmed).''"

definition partial_msg :: "nat \<Rightarrow> string list \<Rightarrow> string" where
  "partial_msg count errs =
     ''Uploaded '' @ show_nat count @ '' products with '' @ show_nat (length errs)
     @ '' errors: '' @ join ''; '' errs"

definition no_valid_msg :: "string list \<Rightarrow> string" where
  "no_valid_msg errs = ''No valid products found. Errors: '' @ join ''; '' errs"

text \<open>The \<^verbatim>\<open>try\<close> block: what it throws or returns, and the client as it leaves it.\<close>

definition try_block ::
  "(jsnum \<Rightarrow> string) \<Rightarrow> (insert_params list \<Rightarrow> insert_params \<Rightarrow> string option) \<Rightarrow> row list
     \<Rightarrow> (string \<rightharpoonup> string) \<Rightarrow> client \<Rightarrow> (js_error + report) \<times> client" where
  "try_block numstr reject products columnMap client0 =
     (let c1 = query_BEGIN client0;
          (categories, c2) = query_SELECT_category c1
      in if length categories = 0 then
           (Inl (Error ''No categories found in the database. Please add categories first.''), c2)
         else
           let categoryMap = build_categoryMap categories;
               missingFields = filter (column_falsy columnMap) requiredFields
           in if length missingFields > 0 then
                (Inl (Error (missing_columns_msg missingFields)), c2)
              else
                let st = process_rows numstr reject categories categoryMap columnMap 0 products
                           \<lparr>errors = [], processedCount = 0, conn = c2\<rparr>
                in if length (errors st) > 0 \<and> processedCount st > 0 then
                     (Inl (Error (partial_msg (processedCount st) (errors st))),
                      query_COMMIT (conn st))
                   else if length products = length (errors st) then
                     (Inl (Error (no_valid_msg (errors st))), query_ROLLBACK (conn st))
                   else
                     (Inr [(''success'', Bool True),
                           (''message'',
                            Str (''Successfully uploaded '' @ show_nat (processedCount st)
                                 @ '' products''))],
                      query_COMMIT (conn st)))"

text \<open>
  \<^verbatim>\<open>catch (err) { await client.query('ROLLBACK'); throw err; } finally { client.release(); }\<close>
\<close>

definition processProducts ::
  "(jsnum \<Rightarrow> string) \<Rightarrow> (insert_params list \<Rightarrow> insert_params \<Rightarrow> string option) \<Rightarrow> row list
     \<Rightarrow> (string \<rightharpoonup> string) \<Rightarrow> database \<Rightarrow> (js_error + report) \<times> client" where
  "processProducts numstr reject products columnMap db =
     (case try_block numstr reject products columnMap (connect db) of
        (Inl err, c) \<Rightarrow> (Inl err, release (query_ROLLBACK c))
      | (Inr result, c) \<Rightarrow> (Inr result, release c))"

section \<open>Row outcomes\<close>

text \<open>
  What one pass of the loop body does with a row, when the insert statement sees the rows
  \<open>visible\<close>: \<open>Inl\<close> is the message appended to \<^verbatim>\<open>errors\<close> (from a check, or from the
  \<^verbatim>\<open>catch\<close> around the insert), \<open>Inr\<close> the parameters of the row inserted.
\<close>

definition row_outcome ::
  "(jsnum \<Rightarrow> string) \<Rightarrow> (insert_params list \<Rightarrow> insert_params \<Rightarrow> string option) \<Rightarrow> category list
     \<Rightarrow> (string \<rightharpoonup> int) \<Rightarrow> (string \<rightharpoonup> string) \<Rightarrow> insert_params list \<Rightarrow> nat \<Rightarrow> row
     \<Rightarrow> string + insert_params" where
  "row_outcome numstr reject categories categoryMap columnMap visible rowNum product =
     (case validate_row numstr categories categoryMap columnMap rowNum product of
        Inl msg \<Rightarrow> Inl msg
      | Inr params \<Rightarrow>
          (case reject visible params of
             Some err \<Rightarrow> Inl (row_msg rowNum (''Database error: '' @ err))
           | None \<Rightarrow> Inr params))"

text \<open>The outcomes of the rows from index \<open>i\<close> on, in row order; an inserted row becomes visible to the later inserts.\<close>

fun row_outcomes ::
  "(jsnum \<Rightarrow> string) \<Rightarrow> (insert_params list \<Rightarrow> insert_params \<Rightarrow> string option) \<Rightarrow> category list
     \<Rightarrow> (string \<rightharpoonup> int) \<Rightarrow> (string \<rightharpoonup> string) \<Rightarrow> insert_params list \<Rightarrow> nat \<Rightarrow> row list
     \<Rightarrow> (string + insert_params) list" where
  "row_outcomes numstr reject categories categoryMap columnMap visible i [] = []"
| "row_outcomes numstr reject categories categoryMap columnMap visible i (product # rest) =
     (case row_outcome numstr reject categories categoryMap columnMap visible (i + 2) product of
        Inl msg \<Rightarrow>
          Inl msg # row_outcomes numstr reject categories categoryMap columnMap visible (i + 1) rest
      | Inr params \<Rightarrow>
          Inr params
          # row_outcomes numstr reject categories categoryMap columnMap (visible @ [params]) (i + 1) rest)"

fun row_errors :: "(string + insert_params) list \<Rightarrow> string list" where
  "row_errors [] = []"
| "row_errors (Inl msg # outs) = msg # row_errors outs"
| "row_errors (Inr params # outs) = row_errors outs"

fun row_inserts :: "(string + insert_params) list \<Rightarrow> insert_params list" where
  "row_inserts [] = []"
| "row_inserts (Inl msg # outs) = row_inserts outs"
| "row_inserts (Inr params # outs) = params # row_inserts outs"

text \<open>The outcomes of the rows of one import, started on the tables \<open>db\<close>.\<close>

definition import_outcomes ::
  "(jsnum \<Rightarrow> string) \<Rightarrow> (insert_params list \<Rightarrow> insert_params \<Rightarrow> string option) \<Rightarrow> row list
     \<Rightarrow> (string \<rightharpoonup> string) \<Rightarrow> database \<Rightarrow> (string + insert_params) list" where
  "import_outcomes numstr reject products columnMap db =
     row_outcomes numstr reject (category_table db) (build_categoryMap (category_table db)) columnMap
       (products_table db) 0 products"

text \<open>A run of calls that are all inserts.\<close>

definition insert_calls :: "client_call list \<Rightarrow> bool" where
  "insert_calls qs = list_all (\<lambda>q. case q of INSERT_products p \<Rightarrow> True | _ \<Rightarrow> False) qs"

section \<open>Concrete sheets\<close>

text \<open>A parsed row holds the cells of its columns; any other key reads \<^verbatim>\<open>undefined\<close>.\<close>

definition sheet_row :: "(string \<times> cell) list \<Rightarrow> row" where
  "sheet_row cells key = (case map_of cells key of None \<Rightarrow> Undefined | Some v \<Rightarrow> v)"

text \<open>The rendering of whole numbers, enough for the sheets below.\<close>

definition numstr_whole :: "jsnum \<Rightarrow> string" where
  "numstr_whole n =
     (case n of
        NaN \<Rightarrow> ''NaN''
      | Finite r \<Rightarrow> (if r < 0 then ''-'' else []) @ show_nat (nat \<lfloor>\<bar>r\<bar>\<rfloor>))"

definition accept_all :: "insert_params list \<Rightarrow> insert_params \<Rightarrow> string option" where
  "accept_all visible params = None"

text \<open>A store that refuses a product name it already holds.\<close>

definition unique_names :: "insert_params list \<Rightarrow> insert_params \<Rightarrow> string option" where
  "unique_names visible params =
     (if fst params \<in> set (map fst visible) then Some ''duplicate key value'' else None)"

definition sheet_headers :: "string list" where
  "sheet_headers = ['' Product_Name '', ''CATEGORY_NAME'', ''Price'', ''stock  '']"

definition tools_db :: database where
  "tools_db = \<lparr>category_table = [\<lparr>category_id = 1, category_name = ''Tools''\<rparr>], products_table = []\<rparr>"

definition empty_db :: database where
  "empty_db = \<lparr>category_table = [], products_table = []\<rparr>"

definition widget_row :: row where
  "widget_row =
     sheet_row [('' Product_Name '', Str ''Widget''), (''CATEGORY_NAME'', Str ''tools''),
                (''Price'', Str ''9.99''), (''stock  '', Str ''5'')]"

definition bad_price_row :: row where
  "bad_price_row =
     sheet_row [('' Product_Name '', Str ''Gadget''), (''CATEGORY_NAME'', Str ''Tools''),
                (''Price'', Str ''-1''), (''stock  '', Number (Finite 5))]"



definition zero_name_row :: row where
  "zero_name_row =
     sheet_row [('' Product_Name '', Number (Finite 0)), (''CATEGORY_NAME'', Str ''Tools''),
                (''Price'', Number (Finite 3)), (''stock  '', Number (Finite 1))]"

definition false_category_row :: row where
  "false_category_row =
     sheet_row [('' Product_Name '', Str ''Drill''), (''CATEGORY_NAME'', Bool False),
                (''Price'', Number (Finite 3)), (''stock  '', Number (Finite 1))]"




section \<open>The loop and the row outcomes\<close>

lemma process_row_error:
  assumes "row_outcome numstr reject categories categoryMap columnMap (visible_rows (conn st)) rowNum product = Inl msg"
  shows "\<exists>qs. process_row numstr reject categories categoryMap columnMap rowNum product st
           = st\<lparr>errors := errors st @ [msg], conn := (conn st)\<lparr>calls := calls (conn st) @ qs\<rparr>\<rparr>
         \<and> insert_calls qs"
proof (cases "validate_row numstr categories categoryMap columnMap rowNum product")
  case (Inl m)
  with assms have "m = msg" by (simp add: row_outcome_def)
  with Inl have "process_row numstr reject categories categoryMap columnMap rowNum product st
           = st\<lparr>errors := errors st @ [msg], conn := (conn st)\<lparr>calls := calls (conn st) @ []\<rparr>\<rparr>"
    by (simp add: process_row_def)
  then show ?thesis unfolding insert_calls_def by (intro exI[of _ "[]"]) simp
next
  case (Inr p)
  with assms obtain err where r: "reject (visible_rows (conn st)) p = Some err"
    and m: "msg = row_msg rowNum (''Database error: '' @ err)"
    by (auto simp: row_outcome_def split: option.splits)
  from Inr r m have "process_row numstr reject categories categoryMap columnMap rowNum product st
           = st\<lparr>errors := errors st @ [msg], conn := (conn st)\<lparr>calls := calls (conn st) @ [INSERT_products p]\<rparr>\<rparr>"
    by (simp add: process_row_def query_INSERT_def called_def)
  then show ?thesis unfolding insert_calls_def by (intro exI[of _ "[INSERT_products p]"]) simp
qed

lemma process_row_insert:
  assumes "row_outcome numstr reject categories categoryMap columnMap (visible_rows (conn st)) rowNum product = Inr p"
    and "transaction (conn st) = Some ps"
  shows "process_row numstr reject categories categoryMap columnMap rowNum product st
           = st\<lparr>processedCount := processedCount st + 1,
                conn := (conn st)\<lparr>transaction := Some (ps @ [p]),
                                  calls := calls (conn st) @ [INSERT_products p]\<rparr>\<rparr>"
proof -
  from assms(1) have v: "validate_row numstr categories categoryMap columnMap rowNum product = Inr p"
    and r: "reject (visible_rows (conn st)) p = None"
    by (auto simp: row_outcome_def split: sum.splits option.splits)
  show ?thesis using v r assms(2)
    by (simp add: process_row_def query_INSERT_def called_def)
qed

lemma process_rows_outcomes:
  assumes "transaction (conn st) = Some ps"
  shows "\<exists>qs. process_rows numstr reject categories categoryMap columnMap i products st
           = st\<lparr>errors := errors st @ row_errors (row_outcomes numstr reject categories categoryMap columnMap (visible_rows (conn st)) i products),
                processedCount := processedCount st + length (row_inserts (row_outcomes numstr reject categories categoryMap columnMap (visible_rows (conn st)) i products)),
                conn := (conn st)\<lparr>transaction := Some (ps @ row_inserts (row_outcomes numstr reject categories categoryMap columnMap (visible_rows (conn st)) i products)),
                                  calls := calls (conn st) @ qs\<rparr>\<rparr>
         \<and> insert_calls qs"
  using assms
proof (induction products arbitrary: i st ps)
  case Nil
  then show ?case unfolding insert_calls_def by (intro exI[of _ "[]"]) simp
next
  case (Cons product rest)
  let ?vis = "visible_rows (conn st)"
  show ?case
  proof (cases "row_outcome numstr reject categories categoryMap columnMap ?vis (i + 2) product")
    case (Inl msg)
    from process_row_error[OF Inl] obtain q1 where
      s1: "process_row numstr reject categories categoryMap columnMap (i + 2) product st
           = st\<lparr>errors := errors st @ [msg], conn := (conn st)\<lparr>calls := calls (conn st) @ q1\<rparr>\<rparr>"
      and q1: "insert_calls q1" by blast
    let ?st1 = "st\<lparr>errors := errors st @ [msg], conn := (conn st)\<lparr>calls := calls (conn st) @ q1\<rparr>\<rparr>"
    have t1: "transaction (conn ?st1) = Some ps" using Cons.prems by simp
    have v1: "visible_rows (conn ?st1) = ?vis" by (simp add: visible_rows_def)
    from Cons.IH[OF t1, of "i + 1"] obtain q2 where
      s2: "process_rows numstr reject categories categoryMap columnMap (i + 1) rest ?st1
           = ?st1\<lparr>errors := errors ?st1 @ row_errors (row_outcomes numstr reject categories categoryMap columnMap (visible_rows (conn ?st1)) (i + 1) rest),
                processedCount := processedCount ?st1 + length (row_inserts (row_outcomes numstr reject categories categoryMap columnMap (visible_rows (conn ?st1)) (i + 1) rest)),
                conn := (conn ?st1)\<lparr>transaction := Some (ps @ row_inserts (row_outcomes numstr reject categories categoryMap columnMap (visible_rows (conn ?st1)) (i + 1) rest)),
                                  calls := calls (conn ?st1) @ q2\<rparr>\<rparr>"
      and q2: "insert_calls q2" by blast
    have step: "process_rows numstr reject categories categoryMap columnMap i (product # rest) st
        = process_rows numstr reject categories categoryMap columnMap (i + 1) rest ?st1"
      by (simp only: process_rows.simps s1)
    have outs: "row_outcomes numstr reject categories categoryMap columnMap ?vis i (product # rest)
        = Inl msg # row_outcomes numstr reject categories categoryMap columnMap ?vis (i + 1) rest"
      by (simp only: row_outcomes.simps Inl sum.case)
    have "process_rows numstr reject categories categoryMap columnMap i (product # rest) st
           = st\<lparr>errors := errors st @ row_errors (row_outcomes numstr reject categories categoryMap columnMap ?vis i (product # rest)),
                processedCount := processedCount st + length (row_inserts (row_outcomes numstr reject categories categoryMap columnMap ?vis i (product # rest))),
                conn := (conn st)\<lparr>transaction := Some (ps @ row_inserts (row_outcomes numstr reject categories categoryMap columnMap ?vis i (product # rest))),
                                  calls := calls (conn st) @ (q1 @ q2)\<rparr>\<rparr>"
      unfolding step outs s2 v1 by simp
    moreover have "insert_calls (q1 @ q2)" using q1 q2 by (simp add: insert_calls_def)
    ultimately show ?thesis by blast
  next
    case (Inr p)
    note s1 = process_row_insert[OF Inr Cons.prems]
    let ?st1 = "st\<lparr>processedCount := processedCount st + 1,
                conn := (conn st)\<lparr>transaction := Some (ps @ [p]),
                                  calls := calls (conn st) @ [INSERT_products p]\<rparr>\<rparr>"
    have t1: "transaction (conn ?st1) = Some (ps @ [p])" by simp
    have v1: "visible_rows (conn ?st1) = ?vis @ [p]" using Cons.prems by (simp add: visible_rows_def)
    from Cons.IH[OF t1, of "i + 1"] obtain q2 where
      s2: "process_rows numstr reject categories categoryMap columnMap (i + 1) rest ?st1
           = ?st1\<lparr>errors := errors ?st1 @ row_errors (row_outcomes numstr reject categories categoryMap columnMap (visible_rows (conn ?st1)) (i + 1) rest),
                processedCount := processedCount ?st1 + length (row_inserts (row_outcomes numstr reject categories categoryMap columnMap (visible_rows (conn ?st1)) (i + 1) rest)),
                conn := (conn ?st1)\<lparr>transaction := Some ((ps @ [p]) @ row_inserts (row_outcomes numstr reject categories categoryMap columnMap (visible_rows (conn ?st1)) (i + 1) rest)),
                                  calls := calls (conn ?st1) @ q2\<rparr>\<rparr>"
      and q2: "insert_calls q2" by blast
    have step: "process_rows numstr reject categories categoryMap columnMap i (product # rest) st
        = process_rows numstr reject categories categoryMap columnMap (i + 1) rest ?st1"
      by (simp only: process_rows.simps s1)
    have outs: "row_outcomes numstr reject categories categoryMap columnMap ?vis i (product # rest)
        = Inr p # row_outcomes numstr reject categories categoryMap columnMap (?vis @ [p]) (i + 1) rest"
      by (simp only: row_outcomes.simps Inr sum.case)
    have "process_rows numstr reject categories categoryMap columnMap i (product # rest) st
           = st\<lparr>errors := errors st @ row_errors (row_outcomes numstr reject categories categoryMap columnMap ?vis i (product # rest)),
                processedCount := processedCount st + length (row_inserts (row_outcomes numstr reject categories categoryMap columnMap ?vis i (product # rest))),
                conn := (conn st)\<lparr>transaction := Some (ps @ row_inserts (row_outcomes numstr reject categories categoryMap columnMap ?vis i (product # rest))),
                                  calls := calls (conn st) @ (INSERT_products p # q2)\<rparr>\<rparr>"
      unfolding step outs s2 v1 by simp
    moreover have "insert_calls (INSERT_products p # q2)" using q2 by (simp add: insert_calls_def)
    ultimately show ?thesis by blast
  qed
qed


lemma length_row_outcomes:
  "length (row_outcomes numstr reject categories categoryMap columnMap visible i products) = length products"
  by (induction products arbitrary: visible i) (auto split: sum.splits)

lemma length_errors_inserts: "length (row_errors outs) + length (row_inserts outs) = length outs"
  by (induction outs rule: row_errors.induct) auto


lemma processProducts_outcomes:
  assumes cats: "category_table db \<noteq> []"
    and cols: "filter (column_falsy columnMap) requiredFields = []"
    and outs: "outs = import_outcomes numstr reject products columnMap db"
  shows "\<exists>qs. insert_calls qs \<and>
     processProducts numstr reject products columnMap db =
       (if row_errors outs \<noteq> [] \<and> row_inserts outs \<noteq> [] then
          (Inl (Error (partial_msg (length (row_inserts outs)) (row_errors outs))),
           \<lparr>category_table = category_table db,
            products_table = products_table db @ row_inserts outs,
            transaction = None,
            calls = [BEGIN, SELECT_category] @ qs @ [COMMIT, ROLLBACK, Release]\<rparr>)
        else if row_inserts outs = [] then
          (Inl (Error (no_valid_msg (row_errors outs))),
           \<lparr>category_table = category_table db,
            products_table = products_table db,
            transaction = None,
            calls = [BEGIN, SELECT_category] @ qs @ [ROLLBACK, ROLLBACK, Release]\<rparr>)
        else
          (Inr [(''success'', Bool True),
                (''message'',
                 Str (''Successfully uploaded '' @ show_nat (length (row_inserts outs)) @ '' products''))],
           \<lparr>category_table = category_table db,
            products_table = products_table db @ row_inserts outs,
            transaction = None,
            calls = [BEGIN, SELECT_category] @ qs @ [COMMIT, Release]\<rparr>))"
proof -
  let ?c2 = "\<lparr>category_table = category_table db, products_table = products_table db,
              transaction = Some [], calls = [BEGIN, SELECT_category]\<rparr>"
  let ?st0 = "\<lparr>errors = [], processedCount = 0, conn = ?c2\<rparr>"
  have c2: "query_SELECT_category (query_BEGIN (connect db)) = (category_table db, ?c2)"
    by (simp add: query_SELECT_category_def query_BEGIN_def connect_def called_def)
  have vis: "visible_rows (conn ?st0) = products_table db"
    by (simp add: visible_rows_def)
  have "transaction (conn ?st0) = Some []" by simp
  from process_rows_outcomes[OF this, of numstr reject "category_table db"
      "build_categoryMap (category_table db)" columnMap 0 products]
  obtain qs where
    loop: "process_rows numstr reject (category_table db) (build_categoryMap (category_table db))
             columnMap 0 products ?st0
           = \<lparr>errors = row_errors outs, processedCount = length (row_inserts outs),
              conn = \<lparr>category_table = category_table db, products_table = products_table db,
                      transaction = Some (row_inserts outs),
                      calls = [BEGIN, SELECT_category] @ qs\<rparr>\<rparr>"
    and qs: "insert_calls qs"
    unfolding vis outs import_outcomes_def by auto
  have len: "length products = length (row_errors outs) + length (row_inserts outs)"
    by (simp add: outs import_outcomes_def length_errors_inserts length_row_outcomes)
  have "processProducts numstr reject products columnMap db =
       (if row_errors outs \<noteq> [] \<and> row_inserts outs \<noteq> [] then
          (Inl (Error (partial_msg (length (row_inserts outs)) (row_errors outs))),
           \<lparr>category_table = category_table db,
            products_table = products_table db @ row_inserts outs,
            transaction = None,
            calls = [BEGIN, SELECT_category] @ qs @ [COMMIT, ROLLBACK, Release]\<rparr>)
        else if row_inserts outs = [] then
          (Inl (Error (no_valid_msg (row_errors outs))),
           \<lparr>category_table = category_table db,
            products_table = products_table db,
            transaction = None,
            calls = [BEGIN, SELECT_category] @ qs @ [ROLLBACK, ROLLBACK, Release]\<rparr>)
        else
          (Inr [(''success'', Bool True),
                (''message'',
                 Str (''Successfully uploaded '' @ show_nat (length (row_inserts outs)) @ '' products''))],
           \<lparr>category_table = category_table db,
            products_table = products_table db @ row_inserts outs,
            transaction = None,
            calls = [BEGIN, SELECT_category] @ qs @ [COMMIT, Release]\<rparr>))"
    using cats cols len
    by (simp add: processProducts_def try_block_def c2 Let_def loop
        query_COMMIT_def query_ROLLBACK_def release_def called_def)
  with qs show ?thesis by blast
qed


section \<open>Partial success\<close>

text \<open>
  C1. When the rows of an import yield at least one inserted row and at least one row
  error, \<^verbatim>\<open>processProducts\<close> commits: the products table ends with the inserted rows
  appended, in row order. It then throws the aggregate error, whose message gives the
  number of inserted rows and every row error in row order. The \<^verbatim>\<open>ROLLBACK\<close> of the
  \<^verbatim>\<open>catch\<close> block comes after the \<^verbatim>\<open>COMMIT\<close> and removes nothing. Every row has exactly one
  outcome.
\<close>

theorem partial_success_commits_then_fails:
  assumes "category_table db \<noteq> []"
    and "filter (column_falsy columnMap) requiredFields = []"
    and "outs = import_outcomes numstr reject products columnMap db"
    and "row_errors outs \<noteq> []"
    and "row_inserts outs \<noteq> []"
  shows "\<exists>qs. insert_calls qs \<and>
           processProducts numstr reject products columnMap db =
             (Inl (Error (partial_msg (length (row_inserts outs)) (row_errors outs))),
              \<lparr>category_table = category_table db,
               products_table = products_table db @ row_inserts outs,
               transaction = None,
               calls = [BEGIN, SELECT_category] @ qs @ [COMMIT, ROLLBACK, Release]\<rparr>) \<and>
           length (row_errors outs) + length (row_inserts outs) = length products"
proof -
  have "length (row_errors outs) + length (row_inserts outs) = length products"
    by (simp add: assms(3) import_outcomes_def length_errors_inserts length_row_outcomes)
  with processProducts_outcomes[OF assms(1,2,3)] assms(4,5) show ?thesis
    by auto
qed

theorem partial_success_commits_then_fails_witness:
  "\<exists>qs. insert_calls qs \<and>
     processProducts numstr_whole unique_names [widget_row, bad_price_row, widget_row]
       (build_columnMap sheet_headers) tools_db =
       (Inl (Error ''Uploaded 1 products with 2 errors: Row 3: Price must be a number greater than 0; Row 4: Database error: duplicate key value''),
        \<lparr>category_table = [\<lparr>category_id = 1, category_name = ''Tools''\<rparr>],
         products_table = [(''Widget'', OwnId 1, Finite (999 / 100), Finite 5)],
         transaction = None,
         calls = [BEGIN, SELECT_category] @ qs @ [COMMIT, ROLLBACK, Release]\<rparr>)"
proof -
  let ?outs = "[Inr (''Widget'', OwnId 1, Finite (999 / 100), Finite 5),
                Inl ''Row 3: Price must be a number greater than 0'',
                Inl ''Row 4: Database error: duplicate key value'']"
  have h1: "category_table tools_db \<noteq> []"
    by (simp add: tools_db_def)
  have h2: "filter (column_falsy (build_columnMap sheet_headers)) requiredFields = []"
    by code_simp
  have h3: "?outs = import_outcomes numstr_whole unique_names [widget_row, bad_price_row, widget_row]
                      (build_columnMap sheet_headers) tools_db"
    by code_simp
  have h4: "row_errors ?outs \<noteq> []"
    by simp
  have h5: "row_inserts ?outs \<noteq> []"
    by simp
  have msg: "partial_msg (length (row_inserts ?outs)) (row_errors ?outs)
      = ''Uploaded 1 products with 2 errors: Row 3: Price must be a number greater than 0; Row 4: Database error: duplicate key value''"
    by code_simp
  from partial_success_commits_then_fails[OF h1 h2 h3 h4 h5] show ?thesis
    unfolding msg by (simp add: tools_db_def)
qed

section \<open>Every row in error\<close>







section \<open>Every row inserted\<close>

text \<open>
  C5, as the claim states it, fails: on a sheet whose single row is inserted the object
  returned has the two properties \<^verbatim>\<open>success\<close> and \<^verbatim>\<open>message\<close> and no other. No
  property holds the processed count, here the number 1, and none holds a list of row
  errors. On a sheet without rows, where every row succeeds for want of any, nothing is
  returned: an error is thrown.
\<close>

theorem success_report_fields_counterexample:
  "fst (processProducts numstr_whole accept_all [widget_row] (build_columnMap sheet_headers) tools_db)
     = Inr [(''success'', Bool True), (''message'', Str ''Successfully uploaded 1 products'')] \<and>
   map fst [(''success'', Bool True), (''message'', Str ''Successfully uploaded 1 products'')]
     = [''success'', ''message''] \<and>
   Number (Finite 1)
     \<notin> set (map snd [(''success'', Bool True), (''message'', Str ''Successfully uploaded 1 products'')]) \<and>
   fst (processProducts numstr_whole accept_all [] (build_columnMap sheet_headers) tools_db)
     = Inl (Error ''No valid products found. Errors: '')"
  by code_simp

text \<open>
  C5, amended. When the sheet has at least one row and every row is inserted,
  \<^verbatim>\<open>processProducts\<close> commits, so the products table ends with one new row for each row
  of the sheet, in row order, and returns an object with exactly the properties
  \<^verbatim>\<open>success\<close>, which is true, and \<^verbatim>\<open>message\<close>, which reads "Successfully uploaded N
  products" with N the number of rows.
\<close>

theorem all_rows_inserted_commits:
  assumes "category_table db \<noteq> []"
    and "filter (column_falsy columnMap) requiredFields = []"
    and "outs = import_outcomes numstr reject products columnMap db"
    and "products \<noteq> []"
    and "row_errors outs = []"
  shows "\<exists>qs. insert_calls qs \<and>
           processProducts numstr reject products columnMap db =
             (Inr [(''success'', Bool True),
                   (''message'',
                    Str (''Successfully uploaded '' @ show_nat (length products) @ '' products''))],
              \<lparr>category_table = category_table db,
               products_table = products_table db @ row_inserts outs,
               transaction = None,
               calls = [BEGIN, SELECT_category] @ qs @ [COMMIT, Release]\<rparr>) \<and>
           length (row_inserts outs) = length products"
proof -
  have "length (row_errors outs) + length (row_inserts outs) = length products"
    by (simp add: assms(3) import_outcomes_def length_errors_inserts length_row_outcomes)
  with assms(4,5) have len: "length (row_inserts outs) = length products"
    and some: "row_inserts outs \<noteq> []"
    by auto
  from processProducts_outcomes[OF assms(1,2,3)] assms(5) some len show ?thesis
    by auto
qed

theorem all_rows_inserted_commits_witness:
  "\<exists>qs. insert_calls qs \<and>
     processProducts numstr_whole accept_all [widget_row] (build_columnMap sheet_headers) tools_db =
       (Inr [(''success'', Bool True), (''message'', Str ''Successfully uploaded 1 products'')],
        \<lparr>category_table = [\<lparr>category_id = 1, category_name = ''Tools''\<rparr>],
         products_table = [(''Widget'', OwnId 1, Finite (999 / 100), Finite 5)],
         transaction = None,
         calls = [BEGIN, SELECT_category] @ qs @ [COMMIT, Release]\<rparr>)"
proof -
  let ?outs = "[Inr (''Widget'', OwnId 1, Finite (999 / 100), Finite 5)]
                 :: (string + insert_params) list"
  have h1: "category_table tools_db \<noteq> []"
    by (simp add: tools_db_def)
  have h2: "filter (column_falsy (build_columnMap sheet_headers)) requiredFields = []"
    by code_simp
  have h3: "?outs = import_outcomes numstr_whole accept_all [widget_row]
                      (build_columnMap sheet_headers) tools_db"
    by code_simp
  have h4: "[widget_row] \<noteq> []"
    by simp
  have h5: "row_errors ?outs = []"
    by simp
  have msg: "''Successfully uploaded '' @ show_nat (length [widget_row]) @ '' products''
      = ''Successfully uploaded 1 products''"
    by code_simp
  from all_rows_inserted_commits[OF h1 h2 h3 h4 h5] show ?thesis
    unfolding msg by (simp add: tools_db_def)
qed

section \<open>Sheets without rows, stores without categories\<close>

text \<open>
  C9. With at least one category and the four required columns, an import of no rows does
  not return the success object. The error count and the row count are both zero, so the
  branch for a sheet whose rows all failed is taken: the transaction is rolled back and
  the error "No valid products found" is thrown, with an empty list of errors.
\<close>

theorem no_rows_fails:
  assumes "category_table db \<noteq> []"
    and "filter (column_falsy columnMap) requiredFields = []"
  shows "processProducts numstr reject [] columnMap db =
           (Inl (Error ''No valid products found. Errors: ''),
            \<lparr>category_table = category_table db,
             products_table = products_table db,
             transaction = None,
             calls = [BEGIN, SELECT_category, ROLLBACK, ROLLBACK, Release]\<rparr>)"
  using assms
  by (simp add: processProducts_def try_block_def Let_def no_valid_msg_def connect_def
      query_BEGIN_def query_SELECT_category_def query_ROLLBACK_def release_def called_def)

theorem no_rows_fails_witness:
  "processProducts numstr_whole accept_all [] (build_columnMap sheet_headers) tools_db =
     (Inl (Error ''No valid products found. Errors: ''),
      \<lparr>category_table = category_table tools_db,
       products_table = products_table tools_db,
       transaction = None,
       calls = [BEGIN, SELECT_category, ROLLBACK, ROLLBACK, Release]\<rparr>)"
proof -
  have h1: "category_table tools_db \<noteq> []"
    by (simp add: tools_db_def)
  have h2: "filter (column_falsy (build_columnMap sheet_headers)) requiredFields = []"
    by code_simp
  show ?thesis
    by (rule no_rows_fails[OF h1 h2])
qed

text \<open>
  C6. When the category table is empty, \<^verbatim>\<open>processProducts\<close> throws the error "No
  categories found in the database", whatever the rows and the header map. The only calls
  it makes are \<^verbatim>\<open>BEGIN\<close>, the \<^verbatim>\<open>SELECT\<close> of the categories, the \<^verbatim>\<open>ROLLBACK\<close> of the
  \<^verbatim>\<open>catch\<close> block and the release: no insert is made, and the products table is as before.
\<close>

theorem no_categories_fails:
  assumes "category_table db = []"
  shows "processProducts numstr reject products columnMap db =
           (Inl (Error ''No categories found in the database. Please add categories first.''),
            \<lparr>category_table = [],
             products_table = products_table db,
             transaction = None,
             calls = [BEGIN, SELECT_category, ROLLBACK, Release]\<rparr>)"
  using assms
  by (simp add: processProducts_def try_block_def Let_def connect_def
      query_BEGIN_def query_SELECT_category_def query_ROLLBACK_def release_def called_def)

theorem no_categories_fails_witness:
  "processProducts numstr_whole accept_all [widget_row, bad_price_row]
     (build_columnMap sheet_headers) empty_db =
     (Inl (Error ''No categories found in the database. Please add categories first.''),
      \<lparr>category_table = [],
       products_table = products_table empty_db,
       transaction = None,
       calls = [BEGIN, SELECT_category, ROLLBACK, Release]\<rparr>)"
proof -
  have h1: "category_table empty_db = []"
    by (simp add: empty_db_def)
  show ?thesis
    by (rule no_categories_fails[OF h1])
qed

section \<open>The header map\<close>








section \<open>Missing columns\<close>




section \<open>Validation of one row\<close>







section \<open>Falsy name cells\<close>

lemma falsy_text_empty: "\<not> truthy v \<Longrightarrow> trim (js_String numstr (js_or v (Str []))) = []"
  by (simp add: js_or_def trim_def)

text \<open>
  C10. When the cell read for the product name or for the category name is falsy, the
  accessor yields the empty string and not the string the value converts to, and the row
  is rejected with the message "Missing product_name or category_name": the loop body
  appends that message and inserts nothing. The number 0 and the boolean false are falsy,
  as are a missing cell and the empty string.
\<close>

theorem falsy_name_cell_rejected:
  assumes "\<not> truthy (product (column_key columnMap ''product_name''))
           \<or> \<not> truthy (product (column_key columnMap ''category_name''))"
  shows "validate_row numstr categories categoryMap columnMap rowNum product
           = Inl (row_msg rowNum ''Missing product_name or category_name'') \<and>
         process_row numstr reject categories categoryMap columnMap rowNum product st
           = st\<lparr>errors := errors st @ [row_msg rowNum ''Missing product_name or category_name'']\<rparr> \<and>
         (\<not> truthy (product (column_key columnMap ''product_name'')) \<longrightarrow>
            getProductName numstr columnMap product = []) \<and>
         (\<not> truthy (product (column_key columnMap ''category_name'')) \<longrightarrow>
            getCategoryName numstr columnMap product = []) \<and>
         \<not> truthy (Number (Finite 0)) \<and> \<not> truthy (Bool False) \<and>
         \<not> truthy Undefined \<and> \<not> truthy (Str [])"
proof -
  have name: "getProductName numstr columnMap product = []"
    if "\<not> truthy (product (column_key columnMap ''product_name''))"
    using that by (simp add: getProductName_def falsy_text_empty)
  have cat: "getCategoryName numstr columnMap product = []"
    if "\<not> truthy (product (column_key columnMap ''category_name''))"
    using that by (simp add: getCategoryName_def falsy_text_empty)
  from assms name cat have
    "getProductName numstr columnMap product = [] \<or> getCategoryName numstr columnMap product = []"
    by blast
  then have v: "validate_row numstr categories categoryMap columnMap rowNum product
      = Inl (row_msg rowNum ''Missing product_name or category_name'')"
    unfolding validate_row_def Let_def by simp
  then have "process_row numstr reject categories categoryMap columnMap rowNum product st
      = st\<lparr>errors := errors st @ [row_msg rowNum ''Missing product_name or category_name'']\<rparr>"
    by (simp add: process_row_def)
  with v name cat show ?thesis
    by simp
qed

theorem falsy_name_cell_rejected_witness:
  "validate_row numstr_whole (category_table tools_db) (build_categoryMap (category_table tools_db))
     (build_columnMap sheet_headers) 2 zero_name_row
     = Inl ''Row 2: Missing product_name or category_name'' \<and>
   getProductName numstr_whole (build_columnMap sheet_headers) zero_name_row = [] \<and>
   js_String numstr_whole (zero_name_row (column_key (build_columnMap sheet_headers) ''product_name''))
     = ''0'' \<and>
   validate_row numstr_whole (category_table tools_db) (build_categoryMap (category_table tools_db))
     (build_columnMap sheet_headers) 3 false_category_row
     = Inl ''Row 3: Missing product_name or category_name'' \<and>
   getCategoryName numstr_whole (build_columnMap sheet_headers) false_category_row = [] \<and>
   js_String numstr_whole (false_category_row (column_key (build_columnMap sheet_headers) ''category_name''))
     = ''false''"
proof -
  have z: "\<not> truthy (zero_name_row (column_key (build_columnMap sheet_headers) ''product_name''))"
    by code_simp
  then have a1: "\<not> truthy (zero_name_row (column_key (build_columnMap sheet_headers) ''product_name''))
      \<or> \<not> truthy (zero_name_row (column_key (build_columnMap sheet_headers) ''category_name''))"
    by (rule disjI1)
  have f: "\<not> truthy (false_category_row (column_key (build_columnMap sheet_headers) ''category_name''))"
    by code_simp
  then have a2: "\<not> truthy (false_category_row (column_key (build_columnMap sheet_headers) ''product_name''))
      \<or> \<not> truthy (false_category_row (column_key (build_columnMap sheet_headers) ''category_name''))"
    by (rule disjI2)
  note w1 = falsy_name_cell_rejected[OF a1,
      where numstr = numstr_whole and categories = "category_table tools_db"
        and categoryMap = "build_categoryMap (category_table tools_db)" and rowNum = 2]
  note w2 = falsy_name_cell_rejected[OF a2,
      where numstr = numstr_whole and categories = "category_table tools_db"
        and categoryMap = "build_categoryMap (category_table tools_db)" and rowNum = 3]
  have m1: "row_msg 2 ''Missing product_name or category_name''
      = ''Row 2: Missing product_name or category_name''"
    by code_simp
  have m2: "row_msg 3 ''Missing product_name or category_name''
      = ''Row 3: Missing product_name or category_name''"
    by code_simp
  have s1: "js_String numstr_whole
      (zero_name_row (column_key (build_columnMap sheet_headers) ''product_name'')) = ''0''"
    by code_simp
  have s2: "js_String numstr_whole
      (false_category_row (column_key (build_columnMap sheet_headers) ''category_name'')) = ''false''"
    by code_simp
  from w1 z have r1: "validate_row numstr_whole (category_table tools_db)
      (build_categoryMap (category_table tools_db)) (build_columnMap sheet_headers) 2 zero_name_row
      = Inl ''Row 2: Missing product_name or category_name''"
    and n1: "getProductName numstr_whole (build_columnMap sheet_headers) zero_name_row = []"
    unfolding m1 by blast+
  from w2 f have r2: "validate_row numstr_whole (category_table tools_db)
      (build_categoryMap (category_table tools_db)) (build_columnMap sheet_headers) 3 false_category_row
      = Inl ''Row 3: Missing product_name or category_name''"
    and n2: "getCategoryName numstr_whole (build_columnMap sheet_headers) false_category_row = []"
    unfolding m2 by blast+
  from r1 n1 s1 r2 n2 s2 show ?thesis
    by (intro conjI)
qed

section \<open>Numeric cells\<close>


















end
